theory Spec2Isabelle
  imports Complex_Main "HOL-Library.Word"
begin

section \<open>The safe wrapper around the AI text detector (src/app/page.tsx)\<close>

text \<open>
  The page calls one library function, \<^verbatim>\<open>detectAIText\<close> of the package
  \<^verbatim>\<open>ai-text-detector\<close>, through the wrapper \<^verbatim>\<open>safeDetectAI\<close>:
  \<^verbatim>\<open>
  const safeDetectAI = (text: string) => {
    if (text.trim().length < 50) {
      return { isAIGenerated: false, confidence: 0,
               reasons: ["Text too short for reliable analysis"], score: 0,
               error: "Minimum 50 characters required",
               perplexityScore: 0, burstinessScore: 0 };
    }
    try {
      const result = detectAIText(text);
      return { ...result,
               perplexityScore: result.score * 10,
               burstinessScore: (1 - result.confidence) * 10 };
    } catch (error) {
      return { isAIGenerated: false, confidence: 0,
               reasons: ["Error analyzing text"], score: 0,
               error: error instanceof Error ? error.message : "Unknown error",
               perplexityScore: 0, burstinessScore: 0 };
    }
  };
  \<close>
  The library is not part of the repository, so the model takes it as a parameter.
\<close>

subsection \<open>Strings\<close>

text \<open>
  A JavaScript string is a sequence of UTF-16 code units and \<^verbatim>\<open>.length\<close> counts
  code units: a code point outside the Basic Multilingual Plane is a surrogate pair
  and counts twice.
\<close>

type_synonym js_string = "16 word list"

text \<open>String literals of the source are ASCII; each character is one code unit.\<close>

definition utf16 :: "string \<Rightarrow> js_string" where
  "utf16 s = map (\<lambda>c. of_nat (of_char c)) s"

text \<open>
  \<^verbatim>\<open>String.prototype.trim\<close> removes leading and trailing WhiteSpace and
  LineTerminator code points (ECMA-262): TAB, LF, VT, FF, CR, SPACE, NBSP, U+1680,
  U+2000 to U+200A, U+2028, U+2029, U+202F, U+205F, U+3000 and U+FEFF. All of them are
  single code units.
\<close>

definition is_white_space :: "16 word \<Rightarrow> bool" where
  "is_white_space c \<longleftrightarrow>
     c = 0x0009 \<or> c = 0x000A \<or> c = 0x000B \<or> c = 0x000C \<or> c = 0x000D \<or>
     c = 0x0020 \<or> c = 0x00A0 \<or> c = 0x1680 \<or> (0x2000 \<le> c \<and> c \<le> 0x200A) \<or>
     c = 0x2028 \<or> c = 0x2029 \<or> c = 0x202F \<or> c = 0x205F \<or> c = 0x3000 \<or>
     c = 0xFEFF"

definition trim :: "js_string \<Rightarrow> js_string" where
  "trim s = rev (dropWhile is_white_space (rev (dropWhile is_white_space s)))"

text \<open>
  The specification measures the text in code points. A high surrogate followed by a
  low surrogate is one code point; every other code unit (an unpaired surrogate too)
  is one code point of its own, as the string iterator of the language counts.
\<close>

definition is_high_surrogate :: "16 word \<Rightarrow> bool" where
  "is_high_surrogate c \<longleftrightarrow> 0xD800 \<le> c \<and> c \<le> 0xDBFF"

definition is_low_surrogate :: "16 word \<Rightarrow> bool" where
  "is_low_surrogate c \<longleftrightarrow> 0xDC00 \<le> c \<and> c \<le> 0xDFFF"

fun code_point_length :: "js_string \<Rightarrow> nat" where
  "code_point_length [] = 0"
| "code_point_length [c] = 1"
| "code_point_length (c # d # cs) =
     (if is_high_surrogate c \<and> is_low_surrogate d
      then Suc (code_point_length cs)
      else Suc (code_point_length (d # cs)))"

subsection \<open>The result record\<close>

text \<open>
  \<^verbatim>\<open>
  interface AnalysisResult {
    isAIGenerated: boolean; confidence: number; reasons: string[]; score: number;
    error?: string; perplexityScore: number; burstinessScore: number;
  }
  \<close>
  A JavaScript number is a binary64 float. Numbers are modelled as reals: the wrapper
  applies one subtraction and one multiplication to them, and the constants it writes
  (0, 1, 10) are exact; rounding, NaN and the infinities are outside the model. The optional
  field \<^verbatim>\<open>error\<close> is an option. The type parameter is the type of the two derived
  fields: the wrapper returns \<open>real analysis_result\<close>, where both are numbers; the
  object the library returns is a \<open>real option analysis_result\<close>, in which they may
  be missing, since the wrapper does not rely on them.
\<close>

record 'd analysis_result =
  isAIGenerated :: bool
  confidence :: real
  reasons :: "js_string list"
  score :: real
  error :: "js_string option"
  perplexityScore :: 'd
  burstinessScore :: 'd

subsection \<open>The library call\<close>

text \<open>
  Anything can be thrown in JavaScript. The handler only asks whether the value is an
  instance of \<^verbatim>\<open>Error\<close>, whose \<^verbatim>\<open>message\<close> is a string.
\<close>

datatype 'e thrown = Error_instance (message: js_string) | Non_error 'e

text \<open>
  A call of \<^verbatim>\<open>detectAIText\<close> either returns an object or throws, and may read and
  change state outside the wrapper (module state, a random generator): the world
  \<open>'w\<close> is passed in and returned. \<open>Inl\<close> is a thrown value. The call is assumed to
  come back.
\<close>

type_synonym ('e, 'w, 'a) computation = "'w \<Rightarrow> ('e thrown + 'a) \<times> 'w"

type_synonym ('e, 'w) engine = "js_string \<Rightarrow> ('e, 'w, real option analysis_result) computation"

text \<open>\<^verbatim>\<open>try { body } catch (error) { handler }\<close>: the handler runs in the world the body left.\<close>

definition try_catch ::
  "('e, 'w, 'a) computation \<Rightarrow> ('e thrown \<Rightarrow> ('e, 'w, 'a) computation) \<Rightarrow> ('e, 'w, 'a) computation"
where
  "try_catch body handler w =
     (case body w of
        (Inr v, w') \<Rightarrow> (Inr v, w')
      | (Inl thrown, w') \<Rightarrow> handler thrown w')"

subsection \<open>safeDetectAI\<close>

definition safeDetectAI ::
  "('e, 'w) engine \<Rightarrow> js_string \<Rightarrow> ('e, 'w, real analysis_result) computation"
where
  "safeDetectAI detectAIText text w =
     (if length (trim text) < 50 then
        (Inr \<lparr> isAIGenerated = False,
               confidence = 0,
               reasons = [utf16 ''Text too short for reliable analysis''],
               score = 0,
               error = Some (utf16 ''Minimum 50 characters required''),
               perplexityScore = 0,
               burstinessScore = 0 \<rparr>, w)
      else
        try_catch
          (\<lambda>w. case detectAIText text w of
                  (Inl thrown, w') \<Rightarrow> (Inl thrown, w')
                | (Inr result, w') \<Rightarrow>
                    (Inr \<lparr> isAIGenerated = isAIGenerated result,
                           confidence = confidence result,
                           reasons = reasons result,
                           score = score result,
                           error = error result,
                           perplexityScore = score result * 10,
                           burstinessScore = (1 - confidence result) * 10 \<rparr>, w'))
          (\<lambda>error w.
             (Inr \<lparr> isAIGenerated = False,
                    confidence = 0,
                    reasons = [utf16 ''Error analyzing text''],
                    score = 0,
                    error = Some (case error of
                                    Error_instance m \<Rightarrow> m
                                  | Non_error _ \<Rightarrow> utf16 ''Unknown error''),
                    perplexityScore = 0,
                    burstinessScore = 0 \<rparr>, w))
          w)"

subsection \<open>The engine as the specification describes it\<close>

text \<open>
  Modelled from the spec: the library \<^verbatim>\<open>ai-text-detector\<close> is missing from the
  sources. Section 5 of the specification says that the engine is stateless and
  side-effect-free: its outcome is a function of the text alone and it leaves the world
  as it is.
\<close>

definition stateless_engine ::
  "(js_string \<Rightarrow> 'e thrown + real option analysis_result) \<Rightarrow> ('e, 'w) engine"
where
  "stateless_engine f text w = (f text, w)"

text \<open>
  Modelled from the spec: the ScoreAggregator of the missing library (section 4.3). The
  score is a linear combination of the normalized sub-scores with fixed weights;
  \<^verbatim>\<open>isAIGenerated\<close> is \<^verbatim>\<open>score >= 0.5\<close>; the confidence is
  \<^verbatim>\<open>min(1, 2 * |score - 0.5|)\<close>. The result is (score, confidence, isAIGenerated).
\<close>

definition aggregate :: "real list \<Rightarrow> real list \<Rightarrow> real \<times> real \<times> bool" where
  "aggregate weights subscores =
     (let score = sum_list (map2 (*) weights subscores)
      in (score, min 1 (2 * \<bar>score - 1/2\<bar>), 1/2 \<le> score))"

text \<open>
  Modelled from the spec: the weights of the missing ScoreAggregator (section 4.3). Their
  values are not given: there are eight, one for each feature, they are non-negative,
  none exceeds 0.25, and they sum to 1.
\<close>

definition valid_weights :: "real list \<Rightarrow> bool" where
  "valid_weights weights \<longleftrightarrow>
     length weights = 8 \<and> list_all (\<lambda>x. 0 \<le> x \<and> x \<le> 1/4) weights \<and>
     sum_list weights = 1"

text \<open>
  Modelled from the spec: the sub-scores of the missing ScoreAggregator (section 4.3):
  each of the eight features is normalized to the unit interval.
\<close>

definition normalized :: "real list \<Rightarrow> bool" where
  "normalized subscores \<longleftrightarrow>
     length subscores = 8 \<and> list_all (\<lambda>s. 0 \<le> s \<and> s \<le> 1) subscores"

text \<open>
  Modelled from the spec: an engine, in place of the missing library, that returns what
  the ScoreAggregator computed with the reasons of the ReasonGenerator, and no other
  field.
\<close>

definition spec_engine :: "real list \<Rightarrow> real list \<Rightarrow> js_string list \<Rightarrow> ('e, 'w) engine" where
  "spec_engine weights subscores rs text w =
     (case aggregate weights subscores of
        (s, c, ai) \<Rightarrow>
          (Inr \<lparr> isAIGenerated = ai, confidence = c, reasons = rs, score = s,
                 error = None, perplexityScore = None, burstinessScore = None \<rparr>, w))"

subsection \<open>Sample texts and engines\<close>

text \<open>
  Ten characters; a sentence of 72 characters between two spaces on each side; and
  twenty-five times U+1F600, a surrogate pair each: 25 code points in 50 code units.
\<close>

definition short_text :: js_string where
  "short_text = utf16 ''short text''"

definition long_text :: js_string where
  "long_text =
     utf16 ''  It is worth noting that the results are robust, and moreover consistent.  ''"

definition emoji_text :: js_string where
  "emoji_text = concat (replicate 25 [0xD83D, 0xDE00])"

text \<open>
  Three engines whose world is the number of calls made so far: one returns an object
  that carries derived scores of its own, one throws an \<^verbatim>\<open>Error\<close>, one throws a
  value that is not an \<^verbatim>\<open>Error\<close>.
\<close>

definition sample_verdict :: "real option analysis_result" where
  "sample_verdict =
     \<lparr> isAIGenerated = True, confidence = 1/2,
       reasons = [utf16 ''High density of formal transition phrases''],
       score = 3/4, error = None, perplexityScore = Some 42, burstinessScore = Some 7 \<rparr>"

definition counting_engine :: "(unit, nat) engine" where
  "counting_engine text calls = (Inr sample_verdict, Suc calls)"

definition failing_engine :: "(unit, nat) engine" where
  "failing_engine text calls =
     (Inl (Error_instance (utf16 ''Text cannot be analyzed'')), Suc calls)"

definition rejecting_engine :: "(unit, nat) engine" where
  "rejecting_engine text calls = (Inl (Non_error ()), Suc calls)"

text \<open>An engine that returns the same object without derived scores of its own.\<close>

definition bare_engine :: "(unit, nat) engine" where
  "bare_engine text calls =
     (Inr (sample_verdict \<lparr> perplexityScore := None, burstinessScore := None \<rparr>), Suc calls)"

text \<open>An analysis that depends on the text alone, for the stateless engine.\<close>

definition sample_analysis :: "js_string \<Rightarrow> unit thrown + real option analysis_result" where
  "sample_analysis text =
     (if text = [] then Inl (Error_instance (utf16 ''Text cannot be empty''))
      else Inr sample_verdict)"

text \<open>Eight weights and eight sub-scores for the aggregator: the score is 13/16.\<close>

definition sample_weights :: "real list" where
  "sample_weights = [1/4, 1/4, 1/8, 1/8, 1/16, 1/16, 1/16, 1/16]"

definition sample_subscores :: "real list" where
  "sample_subscores = [1, 1, 1, 1/2, 1, 0, 1/2, 1/2]"

section \<open>Properties\<close>

subsection \<open>Lengths\<close>

text \<open>
  Trimming never lengthens a text. A text has at most twice as many code units as code
  points, and at least as many.
\<close>

lemma length_trim_le: "length (trim s) \<le> length s"
proof -
  have "length (trim s) \<le> length (dropWhile is_white_space s)"
    unfolding trim_def
    by (metis length_dropWhile_le length_rev)
  also have "\<dots> \<le> length s" by (rule length_dropWhile_le)
  finally show ?thesis .
qed

lemma length_le_twice_code_points: "length s \<le> 2 * code_point_length s"
  by (induction s rule: code_point_length.induct) auto

lemma code_point_length_le: "code_point_length s \<le> length s"
  by (induction s rule: code_point_length.induct) auto

lemma emoji_text_units:
  "emoji_text =
     [0xD83D, 0xDE00, 0xD83D, 0xDE00, 0xD83D, 0xDE00, 0xD83D, 0xDE00, 0xD83D, 0xDE00,
      0xD83D, 0xDE00, 0xD83D, 0xDE00, 0xD83D, 0xDE00, 0xD83D, 0xDE00, 0xD83D, 0xDE00,
      0xD83D, 0xDE00, 0xD83D, 0xDE00, 0xD83D, 0xDE00, 0xD83D, 0xDE00, 0xD83D, 0xDE00,
      0xD83D, 0xDE00, 0xD83D, 0xDE00, 0xD83D, 0xDE00, 0xD83D, 0xDE00, 0xD83D, 0xDE00,
      0xD83D, 0xDE00, 0xD83D, 0xDE00, 0xD83D, 0xDE00, 0xD83D, 0xDE00, 0xD83D, 0xDE00]"
  by (simp add: emoji_text_def eval_nat_numeral)

lemma length_trim_short_text: "length (trim short_text) = 10"
  by (simp add: short_text_def utf16_def trim_def is_white_space_def)

lemma length_trim_long_text: "length (trim long_text) = 72"
  by (simp add: long_text_def utf16_def trim_def is_white_space_def)

lemma length_trim_emoji_text: "length (trim emoji_text) = 50"
  by (simp add: emoji_text_units trim_def is_white_space_def)

lemma code_points_trim_emoji_text: "code_point_length (trim emoji_text) = 25"
  by (simp add: emoji_text_units trim_def is_white_space_def
      is_high_surrogate_def is_low_surrogate_def)

subsection \<open>The three paths of the wrapper\<close>

lemma short_path:
  "length (trim text) < 50 \<Longrightarrow>
   safeDetectAI det text w =
     (Inr \<lparr> isAIGenerated = False, confidence = 0,
            reasons = [utf16 ''Text too short for reliable analysis''], score = 0,
            error = Some (utf16 ''Minimum 50 characters required''),
            perplexityScore = 0, burstinessScore = 0 \<rparr>, w)"
  by (simp add: safeDetectAI_def)

lemma returned_path:
  "50 \<le> length (trim text) \<Longrightarrow> det text w = (Inr result, w') \<Longrightarrow>
   safeDetectAI det text w =
     (Inr \<lparr> isAIGenerated = isAIGenerated result, confidence = confidence result,
            reasons = reasons result, score = score result, error = error result,
            perplexityScore = score result * 10,
            burstinessScore = (1 - confidence result) * 10 \<rparr>, w')"
  by (simp add: safeDetectAI_def try_catch_def)

lemma thrown_path:
  "50 \<le> length (trim text) \<Longrightarrow> det text w = (Inl e, w') \<Longrightarrow>
   safeDetectAI det text w =
     (Inr \<lparr> isAIGenerated = False, confidence = 0,
            reasons = [utf16 ''Error analyzing text''], score = 0,
            error = Some (case e of
                            Error_instance m \<Rightarrow> m
                          | Non_error x \<Rightarrow> utf16 ''Unknown error''),
            perplexityScore = 0, burstinessScore = 0 \<rparr>, w')"
  by (simp add: safeDetectAI_def try_catch_def)

text \<open>
  The result depends on the text and on the outcome of the library call only; with a
  stateless engine the world stays as it was.
\<close>

lemma result_from_outcome:
  assumes "fst (det1 text w1) = fst (det2 text w2)"
  shows "fst (safeDetectAI det1 text w1) = fst (safeDetectAI det2 text w2)"
proof (cases "length (trim text) < 50")
  case True
  then show ?thesis by (simp add: short_path)
next
  case False
  then have long: "50 \<le> length (trim text)" by simp
  obtain r w1' where c1: "det1 text w1 = (r, w1')" by (cases "det1 text w1")
  with assms obtain w2' where c2: "det2 text w2 = (r, w2')" by (cases "det2 text w2") auto
  show ?thesis
  proof (cases r)
    case (Inl e)
    with c1 c2 long show ?thesis by (simp add: thrown_path)
  next
    case (Inr result)
    with c1 c2 long show ?thesis by (simp add: returned_path)
  qed
qed

lemma stateless_world:
  "snd (safeDetectAI (stateless_engine f) text w) = w"
proof (cases "length (trim text) < 50")
  case True
  then show ?thesis by (simp add: short_path)
next
  case False
  then have long: "50 \<le> length (trim text)" by simp
  show ?thesis
  proof (cases "f text")
    case (Inl e)
    then have "stateless_engine f text w = (Inl e, w)" by (simp add: stateless_engine_def)
    with long show ?thesis by (simp add: thrown_path)
  next
    case (Inr result)
    then have "stateless_engine f text w = (Inr result, w)" by (simp add: stateless_engine_def)
    with long show ?thesis by (simp add: returned_path)
  qed
qed

subsection \<open>The aggregator of the specification\<close>

lemma weighted_sum_bounds:
  "length ws = length ss \<Longrightarrow> list_all (\<lambda>x. 0 \<le> x) ws \<Longrightarrow>
   list_all (\<lambda>s. 0 \<le> s \<and> s \<le> 1) ss \<Longrightarrow>
   0 \<le> sum_list (map2 (*) ws ss) \<and> sum_list (map2 (*) ws ss) \<le> sum_list (ws :: real list)"
proof (induction ws ss rule: list_induct2)
  case Nil
  then show ?case by simp
next
  case (Cons x xs y ys)
  then have "0 \<le> x * y" "x * y \<le> x"
    by (simp_all add: mult_left_le)
  with Cons show ?case by auto
qed

lemma aggregate_bounds:
  assumes "valid_weights ws" and "normalized ss" and "aggregate ws ss = (s, c, ai)"
  shows "0 \<le> s \<and> s \<le> 1 \<and> 0 \<le> c \<and> c \<le> 1 \<and> ai = (1/2 \<le> s)"
proof -
  have len: "length ws = length ss"
    using assms(1,2) by (simp add: valid_weights_def normalized_def)
  have nonneg: "list_all (\<lambda>x. 0 \<le> x) ws"
    using assms(1) by (simp add: valid_weights_def list_all_iff)
  have unit: "list_all (\<lambda>s. 0 \<le> s \<and> s \<le> 1) ss"
    using assms(2) by (simp add: normalized_def)
  have total: "sum_list ws = 1"
    using assms(1) by (simp add: valid_weights_def)
  have s: "s = sum_list (map2 (*) ws ss)"
    using assms(3) by (simp add: aggregate_def Let_def)
  have c: "c = min 1 (2 * \<bar>s - 1/2\<bar>)"
    using assms(3) by (auto simp add: aggregate_def Let_def)
  have ai: "ai = (1/2 \<le> s)"
    using assms(3) by (auto simp add: aggregate_def Let_def)
  from weighted_sum_bounds [OF len nonneg unit] total s
  have "0 \<le> s" "s \<le> 1" by simp_all
  moreover have "0 \<le> c" "c \<le> 1" unfolding c by simp_all
  ultimately show ?thesis using ai by simp
qed

lemma sample_aggregate: "aggregate sample_weights sample_subscores = (13/16, 5/8, True)"
  by (simp add: aggregate_def sample_weights_def sample_subscores_def Let_def)

subsection \<open>The length guard\<close>

text \<open>
  Twenty-five emoji pass the guard whatever the engine is: the engine is called, and
  the result is never the record of the short-text path.
\<close>

lemma emoji_text_reaches_engine:
  "snd (safeDetectAI det emoji_text w) = snd (det emoji_text w) \<and>
   fst (safeDetectAI det emoji_text w) \<noteq>
     Inr \<lparr> isAIGenerated = False, confidence = 0,
            reasons = [utf16 ''Text too short for reliable analysis''], score = 0,
            error = Some (utf16 ''Minimum 50 characters required''),
            perplexityScore = 0, burstinessScore = 0 \<rparr>"
proof -
  have long: "50 \<le> length (trim emoji_text)" by (simp add: length_trim_emoji_text)
  obtain r w' where call: "det emoji_text w = (r, w')" by (cases "det emoji_text w")
  show ?thesis
  proof (cases r)
    case (Inl e)
    with call long show ?thesis by (simp add: thrown_path utf16_def)
  next
    case (Inr result)
    with call long show ?thesis by (auto simp add: returned_path)
  qed
qed

text \<open>
  C1, as the specification states it, measures the trimmed text in code points. The
  guard compares \<^verbatim>\<open>text.trim().length\<close>, a number of UTF-16 code units: twenty-five
  emoji are 25 code points and 50 code units, so the guard lets them through and the
  library is called (the call counter goes from 0 to 1). With an engine that returns a
  verdict the result has no error and is flagged as generated.
\<close>

theorem safeDetectAI_code_points_counterexample:
  "code_point_length (trim emoji_text) < 50 \<and>
   safeDetectAI counting_engine emoji_text 0 =
     (Inr \<lparr> isAIGenerated = True, confidence = 1/2,
            reasons = [utf16 ''High density of formal transition phrases''],
            score = 3/4, error = None, perplexityScore = 15/2, burstinessScore = 5 \<rparr>, 1)"
  by (simp add: code_points_trim_emoji_text
      returned_path [of emoji_text counting_engine 0 sample_verdict "Suc 0"]
      length_trim_emoji_text counting_engine_def sample_verdict_def)

text \<open>
  C1, amended: for every text whose trimmed length is under 50 UTF-16 code units, with
  any engine, \<open>safeDetectAI\<close> returns \<^verbatim>\<open>isAIGenerated = false\<close>, confidence, score and
  both derived scores 0, the single reason "Text too short for reliable analysis" and
  the error "Minimum 50 characters required", and leaves the world as it was. The empty
  string and every string of 10 characters (10 code units, or 10 code points) are such
  texts.
\<close>

theorem safeDetectAI_too_short:
  assumes "length (trim text) < 50 \<or> text = [] \<or> length text = 10 \<or>
           code_point_length text = 10"
  shows "\<exists>out. safeDetectAI det text w = (Inr out, w) \<and>
           isAIGenerated out = False \<and> confidence out = 0 \<and> score out = 0 \<and>
           perplexityScore out = 0 \<and> burstinessScore out = 0 \<and>
           reasons out = [utf16 ''Text too short for reliable analysis''] \<and>
           length (reasons out) = 1 \<and>
           error out = Some (utf16 ''Minimum 50 characters required'')"
proof -
  have "length (trim text) \<le> length text" by (rule length_trim_le)
  moreover have "length text \<le> 2 * code_point_length text"
    by (rule length_le_twice_code_points)
  ultimately have "length (trim text) < 50" using assms by auto
  then show ?thesis by (simp add: short_path)
qed

theorem safeDetectAI_too_short_witness:
  "(length (trim short_text) < 50 \<or> short_text = [] \<or> length short_text = 10 \<or>
      code_point_length short_text = 10) \<and>
   (\<exists>out. safeDetectAI counting_engine short_text 0 = (Inr out, 0) \<and>
           isAIGenerated out = False \<and> confidence out = 0 \<and> score out = 0 \<and>
           perplexityScore out = 0 \<and> burstinessScore out = 0 \<and>
           reasons out = [utf16 ''Text too short for reliable analysis''] \<and>
           length (reasons out) = 1 \<and>
           error out = Some (utf16 ''Minimum 50 characters required''))"
proof -
  have h: "length (trim short_text) < 50 \<or> short_text = [] \<or> length short_text = 10 \<or>
      code_point_length short_text = 10"
    by (simp add: length_trim_short_text)
  show ?thesis using h safeDetectAI_too_short [OF h, of counting_engine 0] by blast
qed

text \<open>
  C5: for every text whose trimmed length is under 50 characters the wrapper returns
  without calling \<^verbatim>\<open>detectAIText\<close>: the result is the same whatever the engine
  is, and the world, which every call of the engine goes through, is unchanged.
\<close>

theorem guard_skips_engine:
  assumes "length (trim text) < 50"
  shows "safeDetectAI det1 text w = safeDetectAI det2 text w \<and>
         snd (safeDetectAI det1 text w) = w"
  using assms by (simp add: short_path)

theorem guard_skips_engine_witness:
  "length (trim short_text) < 50 \<and>
   safeDetectAI counting_engine short_text 0 = safeDetectAI failing_engine short_text 0 \<and>
   snd (safeDetectAI counting_engine short_text 0) = 0"
proof -
  have h: "length (trim short_text) < 50" by (simp add: length_trim_short_text)
  show ?thesis
    using h guard_skips_engine [OF h, of counting_engine 0 failing_engine] by blast
qed

subsection \<open>Failures of the library\<close>

text \<open>
  C2: \<open>safeDetectAI\<close> is total: for every engine, text and world it returns a
  record and never throws; when the call of \<^verbatim>\<open>detectAIText\<close> throws, whatever the
  thrown value, the record has \<^verbatim>\<open>error\<close> populated, \<^verbatim>\<open>isAIGenerated = false\<close>,
  confidence 0 and score 0.
\<close>

theorem safeDetectAI_total:
  "\<exists>out w'. safeDetectAI det text w = (Inr out, w') \<and>
     (isl (fst (det text w)) \<longrightarrow>
        error out \<noteq> None \<and> isAIGenerated out = False \<and> confidence out = 0 \<and> score out = 0)"
proof (cases "length (trim text) < 50")
  case True
  then show ?thesis by (simp add: short_path)
next
  case False
  then have long: "50 \<le> length (trim text)" by simp
  obtain r w' where call: "det text w = (r, w')" by (cases "det text w")
  show ?thesis
  proof (cases r)
    case (Inl e)
    with call long show ?thesis by (simp add: thrown_path)
  next
    case (Inr result)
    with call long show ?thesis by (simp add: returned_path)
  qed
qed

theorem safeDetectAI_total_witness:
  "isl (fst (failing_engine long_text 0)) \<and>
   (\<exists>out w'. safeDetectAI failing_engine long_text 0 = (Inr out, w') \<and>
      error out \<noteq> None \<and> isAIGenerated out = False \<and> confidence out = 0 \<and> score out = 0)"
  using safeDetectAI_total [of failing_engine long_text 0]
  by (simp add: failing_engine_def)

text \<open>
  C10: when \<^verbatim>\<open>detectAIText\<close> throws, \<^verbatim>\<open>error\<close> is the message of the thrown
  value if it is an \<^verbatim>\<open>Error\<close> instance and "Unknown error" otherwise, so it is
  always a string, and \<^verbatim>\<open>reasons\<close> is exactly ["Error analyzing text"].
\<close>

theorem caught_error_message:
  assumes "50 \<le> length (trim text)" and "det text w = (Inl e, w')"
  shows "\<exists>out. safeDetectAI det text w = (Inr out, w') \<and>
           error out = Some (case e of
                               Error_instance m \<Rightarrow> m
                             | Non_error x \<Rightarrow> utf16 ''Unknown error'') \<and>
           error out \<noteq> None \<and>
           reasons out = [utf16 ''Error analyzing text'']"
  using assms by (simp add: thrown_path)

theorem caught_error_message_witness:
  "50 \<le> length (trim long_text) \<and>
   failing_engine long_text 0 = (Inl (Error_instance (utf16 ''Text cannot be analyzed'')), 1) \<and>
   rejecting_engine long_text 0 = (Inl (Non_error ()), 1) \<and>
   (\<exists>out. safeDetectAI failing_engine long_text 0 = (Inr out, 1) \<and>
      error out = Some (utf16 ''Text cannot be analyzed'') \<and>
      reasons out = [utf16 ''Error analyzing text'']) \<and>
   (\<exists>out. safeDetectAI rejecting_engine long_text 0 = (Inr out, 1) \<and>
      error out = Some (utf16 ''Unknown error'') \<and>
      reasons out = [utf16 ''Error analyzing text''])"
proof -
  have h1: "50 \<le> length (trim long_text)" by (simp add: length_trim_long_text)
  have h2: "failing_engine long_text 0 =
      (Inl (Error_instance (utf16 ''Text cannot be analyzed'')), 1)"
    by (simp add: failing_engine_def)
  have h3: "rejecting_engine long_text 0 = (Inl (Non_error ()), 1)"
    by (simp add: rejecting_engine_def)
  have 1: "\<exists>out. safeDetectAI failing_engine long_text 0 = (Inr out, 1) \<and>
      error out = Some (utf16 ''Text cannot be analyzed'') \<and>
      reasons out = [utf16 ''Error analyzing text'']"
    using caught_error_message
      [of long_text failing_engine 0 "Error_instance (utf16 ''Text cannot be analyzed'')" 1,
        OF h1 h2]
    by auto
  have 2: "\<exists>out. safeDetectAI rejecting_engine long_text 0 = (Inr out, 1) \<and>
      error out = Some (utf16 ''Unknown error'') \<and>
      reasons out = [utf16 ''Error analyzing text'']"
    using caught_error_message [of long_text rejecting_engine 0 "Non_error ()" 1, OF h1 h3]
    by auto
  show ?thesis using h1 h2 h3 1 2 by blast
qed

text \<open>
  C7: the \<^verbatim>\<open>error\<close> field is set on the short-text path and on the path of a caught
  throw, and on the successful path the wrapper adds none: the field is the one of the
  object the library returned. So when the library's objects carry no error, the field
  is present exactly when the analysis was not completed.
\<close>

theorem error_field:
  "\<exists>out w'. safeDetectAI det text w = (Inr out, w') \<and>
     (length (trim text) < 50 \<longrightarrow>
        error out = Some (utf16 ''Minimum 50 characters required'')) \<and>
     (50 \<le> length (trim text) \<longrightarrow> (\<forall>e. fst (det text w) = Inl e \<longrightarrow> error out \<noteq> None)) \<and>
     (50 \<le> length (trim text) \<longrightarrow>
        (\<forall>result. fst (det text w) = Inr result \<longrightarrow> error out = error result)) \<and>
     ((\<forall>result. fst (det text w) = Inr result \<longrightarrow> error result = None) \<longrightarrow>
        (error out \<noteq> None) = (length (trim text) < 50 \<or> isl (fst (det text w))))"
proof (cases "length (trim text) < 50")
  case True
  then show ?thesis by (simp add: short_path)
next
  case False
  then have long: "50 \<le> length (trim text)" by simp
  obtain r w' where call: "det text w = (r, w')" by (cases "det text w")
  show ?thesis
  proof (cases r)
    case (Inl e)
    with call long show ?thesis by (simp add: thrown_path)
  next
    case (Inr result)
    with call long show ?thesis by (simp add: returned_path)
  qed
qed

theorem error_field_witness:
  "(length (trim short_text) < 50 \<and>
    (\<exists>out w'. safeDetectAI counting_engine short_text 0 = (Inr out, w') \<and>
       error out = Some (utf16 ''Minimum 50 characters required''))) \<and>
   (50 \<le> length (trim long_text) \<and>
    fst (failing_engine long_text 0) = Inl (Error_instance (utf16 ''Text cannot be analyzed'')) \<and>
    (\<exists>out w'. safeDetectAI failing_engine long_text 0 = (Inr out, w') \<and> error out \<noteq> None)) \<and>
   (fst (counting_engine long_text 0) = Inr sample_verdict \<and> error sample_verdict = None \<and>
    (\<exists>out w'. safeDetectAI counting_engine long_text 0 = (Inr out, w') \<and> error out = None))"
proof -
  have s: "length (trim short_text) < 50" by (simp add: length_trim_short_text)
  have l: "50 \<le> length (trim long_text)" by (simp add: length_trim_long_text)
  have f: "fst (failing_engine long_text 0) =
      Inl (Error_instance (utf16 ''Text cannot be analyzed''))"
    by (simp add: failing_engine_def)
  have c: "fst (counting_engine long_text 0) = Inr sample_verdict"
    by (simp add: counting_engine_def)
  have n: "error sample_verdict = None" by (simp add: sample_verdict_def)
  have 1: "\<exists>out w'. safeDetectAI counting_engine short_text 0 = (Inr out, w') \<and>
       error out = Some (utf16 ''Minimum 50 characters required'')"
    using s error_field [of counting_engine short_text 0] by blast
  have 2: "\<exists>out w'. safeDetectAI failing_engine long_text 0 = (Inr out, w') \<and> error out \<noteq> None"
    using l f error_field [of failing_engine long_text 0] by blast
  have 3: "\<exists>out w'. safeDetectAI counting_engine long_text 0 = (Inr out, w') \<and> error out = None"
    using l c n error_field [of counting_engine long_text 0] by auto
  show ?thesis using s l f c n 1 2 3 by blast
qed

subsection \<open>The successful path\<close>

text \<open>
  C3: when the text passes the guard and \<^verbatim>\<open>detectAIText\<close> returns, the returned
  record satisfies \<^verbatim>\<open>perplexityScore = score * 10\<close> and
  \<^verbatim>\<open>burstinessScore = (1 - confidence) * 10\<close>.
\<close>

theorem derived_scores:
  assumes "50 \<le> length (trim text)" and "det text w = (Inr result, w')"
  shows "\<exists>out. safeDetectAI det text w = (Inr out, w') \<and>
           perplexityScore out = score out * 10 \<and>
           burstinessScore out = (1 - confidence out) * 10"
  using assms by (simp add: returned_path)

theorem derived_scores_witness:
  "50 \<le> length (trim long_text) \<and>
   counting_engine long_text 0 = (Inr sample_verdict, 1) \<and>
   (\<exists>out. safeDetectAI counting_engine long_text 0 = (Inr out, 1) \<and>
           perplexityScore out = score out * 10 \<and>
           burstinessScore out = (1 - confidence out) * 10)"
proof -
  have h1: "50 \<le> length (trim long_text)" by (simp add: length_trim_long_text)
  have h2: "counting_engine long_text 0 = (Inr sample_verdict, 1)"
    by (simp add: counting_engine_def)
  show ?thesis
    using h1 h2 derived_scores [of long_text counting_engine 0 sample_verdict 1, OF h1 h2]
    by blast
qed

text \<open>
  C9: on the successful path every field of the object \<^verbatim>\<open>detectAIText\<close> returned
  is returned unchanged, except \<^verbatim>\<open>perplexityScore\<close> and \<^verbatim>\<open>burstinessScore\<close>,
  which are \<^verbatim>\<open>score * 10\<close> and \<^verbatim>\<open>(1 - confidence) * 10\<close>; the result is the same
  whatever values the library supplied for these two fields.
\<close>

theorem spread_frame:
  assumes "50 \<le> length (trim text)" and "det text w = (Inr result, w')"
  shows "\<exists>out. safeDetectAI det text w = (Inr out, w') \<and>
           isAIGenerated out = isAIGenerated result \<and> confidence out = confidence result \<and>
           reasons out = reasons result \<and> score out = score result \<and>
           error out = error result \<and>
           perplexityScore out = score result * 10 \<and>
           burstinessScore out = (1 - confidence result) * 10 \<and>
           (\<forall>det' p b.
              det' text w = (Inr (result \<lparr> perplexityScore := p, burstinessScore := b \<rparr>), w') \<longrightarrow>
              safeDetectAI det' text w = (Inr out, w'))"
  using assms by (simp add: returned_path)

theorem spread_frame_witness:
  "50 \<le> length (trim long_text) \<and>
   counting_engine long_text 0 = (Inr sample_verdict, 1) \<and>
   bare_engine long_text 0 =
     (Inr (sample_verdict \<lparr> perplexityScore := None, burstinessScore := None \<rparr>), 1) \<and>
   perplexityScore sample_verdict = Some 42 \<and> burstinessScore sample_verdict = Some 7 \<and>
   (\<exists>out. safeDetectAI counting_engine long_text 0 = (Inr out, 1) \<and>
      isAIGenerated out = isAIGenerated sample_verdict \<and>
      confidence out = confidence sample_verdict \<and>
      reasons out = reasons sample_verdict \<and> score out = score sample_verdict \<and>
      error out = error sample_verdict \<and>
      perplexityScore out = 15/2 \<and> burstinessScore out = 5 \<and>
      safeDetectAI bare_engine long_text 0 = (Inr out, 1))"
proof -
  have h1: "50 \<le> length (trim long_text)" by (simp add: length_trim_long_text)
  have h2: "counting_engine long_text 0 = (Inr sample_verdict, 1)"
    by (simp add: counting_engine_def)
  have h3: "bare_engine long_text 0 =
     (Inr (sample_verdict \<lparr> perplexityScore := None, burstinessScore := None \<rparr>), 1)"
    by (simp add: bare_engine_def)
  have v: "perplexityScore sample_verdict = Some 42" "burstinessScore sample_verdict = Some 7"
    "score sample_verdict * 10 = 15/2" "(1 - confidence sample_verdict) * 10 = 5"
    by (simp_all add: sample_verdict_def)
  from spread_frame [of long_text counting_engine 0 sample_verdict 1, OF h1 h2]
  obtain out where out:
    "safeDetectAI counting_engine long_text 0 = (Inr out, 1) \<and>
     isAIGenerated out = isAIGenerated sample_verdict \<and>
     confidence out = confidence sample_verdict \<and>
     reasons out = reasons sample_verdict \<and> score out = score sample_verdict \<and>
     error out = error sample_verdict \<and>
     perplexityScore out = score sample_verdict * 10 \<and>
     burstinessScore out = (1 - confidence sample_verdict) * 10 \<and>
     (\<forall>(det' :: (unit, nat) engine) p b.
        det' long_text 0 =
          (Inr (sample_verdict \<lparr> perplexityScore := p, burstinessScore := b \<rparr>), 1) \<longrightarrow>
        safeDetectAI det' long_text 0 = (Inr out, 1))" ..
  then have all: "\<forall>(det' :: (unit, nat) engine) p b.
        det' long_text 0 =
          (Inr (sample_verdict \<lparr> perplexityScore := p, burstinessScore := b \<rparr>), 1) \<longrightarrow>
        safeDetectAI det' long_text 0 = (Inr out, 1)"
    by blast
  have bare: "safeDetectAI bare_engine long_text 0 = (Inr out, 1)"
    using all [rule_format, of bare_engine None None] h3 by blast
  have "safeDetectAI counting_engine long_text 0 = (Inr out, 1) \<and>
      isAIGenerated out = isAIGenerated sample_verdict \<and>
      confidence out = confidence sample_verdict \<and>
      reasons out = reasons sample_verdict \<and> score out = score sample_verdict \<and>
      error out = error sample_verdict \<and>
      perplexityScore out = 15/2 \<and> burstinessScore out = 5 \<and>
      safeDetectAI bare_engine long_text 0 = (Inr out, 1)"
    using out bare v(3,4) by simp
  then have "\<exists>out. safeDetectAI counting_engine long_text 0 = (Inr out, 1) \<and>
      isAIGenerated out = isAIGenerated sample_verdict \<and>
      confidence out = confidence sample_verdict \<and>
      reasons out = reasons sample_verdict \<and> score out = score sample_verdict \<and>
      error out = error sample_verdict \<and>
      perplexityScore out = 15/2 \<and> burstinessScore out = 5 \<and>
      safeDetectAI bare_engine long_text 0 = (Inr out, 1)" ..
  with h1 h2 h3 v(1,2) show ?thesis by blast
qed

text \<open>
  C4, against the ScoreAggregator of the specification: when the text passes the guard
  and the library returns an object whose score, confidence and verdict are those the
  aggregator computes from valid weights and normalized sub-scores, the record
  \<open>safeDetectAI\<close> returns has its score and its confidence in the unit interval and
  \<^verbatim>\<open>isAIGenerated\<close> is exactly \<^verbatim>\<open>score >= 0.5\<close>.
\<close>

theorem verdict_bounds:
  assumes "valid_weights weights" and "normalized subscores"
    and "50 \<le> length (trim text)"
    and "det text w = (Inr result, w')"
    and "(score result, confidence result, isAIGenerated result) = aggregate weights subscores"
  shows "\<exists>out. safeDetectAI det text w = (Inr out, w') \<and>
           0 \<le> score out \<and> score out \<le> 1 \<and>
           0 \<le> confidence out \<and> confidence out \<le> 1 \<and>
           isAIGenerated out = (1/2 \<le> score out)"
proof -
  from aggregate_bounds [OF assms(1,2) assms(5) [symmetric]]
  have "0 \<le> score result \<and> score result \<le> 1 \<and> 0 \<le> confidence result \<and>
        confidence result \<le> 1 \<and> isAIGenerated result = (1/2 \<le> score result)" .
  then show ?thesis using assms(3,4) by (simp add: returned_path)
qed

theorem verdict_bounds_witness:
  "valid_weights sample_weights \<and> normalized sample_subscores \<and>
   50 \<le> length (trim long_text) \<and>
   (\<exists>out. safeDetectAI (spec_engine sample_weights sample_subscores []) long_text () =
             (Inr out, ()) \<and>
           0 \<le> score out \<and> score out \<le> 1 \<and>
           0 \<le> confidence out \<and> confidence out \<le> 1 \<and>
           isAIGenerated out = (1/2 \<le> score out))"
proof -
  let ?r = "\<lparr> isAIGenerated = True, confidence = 5/8, reasons = [], score = 13/16,
              error = None, perplexityScore = None, burstinessScore = None \<rparr>
            :: real option analysis_result"
  have h1: "valid_weights sample_weights"
    by (simp add: valid_weights_def sample_weights_def)
  have h2: "normalized sample_subscores"
    by (simp add: normalized_def sample_subscores_def)
  have h3: "50 \<le> length (trim long_text)" by (simp add: length_trim_long_text)
  have h4: "spec_engine sample_weights sample_subscores [] long_text () = (Inr ?r, ())"
    by (simp add: spec_engine_def sample_aggregate)
  have h5: "(score ?r, confidence ?r, isAIGenerated ?r) =
      aggregate sample_weights sample_subscores"
    by (simp add: sample_aggregate)
  show ?thesis
    using h1 h2 h3
      verdict_bounds [of sample_weights sample_subscores long_text
        "spec_engine sample_weights sample_subscores []" "()" ?r "()", OF h1 h2 h3 h4 h5]
    by blast
qed

subsection \<open>Degenerate results\<close>

text \<open>
  C8: on every degenerate result (trimmed text under 50 characters, or the library
  throwing) \<^verbatim>\<open>burstinessScore\<close> is 0 and the confidence is 0, so that
  \<^verbatim>\<open>(1 - confidence) * 10\<close> is 10 and differs from it; the identity
  \<^verbatim>\<open>burstinessScore = (1 - confidence) * 10\<close> holds exactly on the results that are
  not degenerate.
\<close>

theorem degenerate_burstiness:
  "\<exists>out w'. safeDetectAI det text w = (Inr out, w') \<and>
     (length (trim text) < 50 \<or> isl (fst (det text w)) \<longrightarrow>
        burstinessScore out = 0 \<and> confidence out = 0 \<and> (1 - confidence out) * 10 = 10 \<and>
        burstinessScore out \<noteq> (1 - confidence out) * 10) \<and>
     (burstinessScore out = (1 - confidence out) * 10) =
       (50 \<le> length (trim text) \<and> \<not> isl (fst (det text w)))"
proof (cases "length (trim text) < 50")
  case True
  then show ?thesis by (simp add: short_path)
next
  case False
  then have long: "50 \<le> length (trim text)" by simp
  obtain r w' where call: "det text w = (r, w')" by (cases "det text w")
  show ?thesis
  proof (cases r)
    case (Inl e)
    with call long show ?thesis by (simp add: thrown_path)
  next
    case (Inr result)
    with call long show ?thesis by (simp add: returned_path)
  qed
qed

theorem degenerate_burstiness_witness:
  "(length (trim short_text) < 50 \<and>
    (\<exists>out w'. safeDetectAI counting_engine short_text 0 = (Inr out, w') \<and>
       burstinessScore out = 0 \<and> confidence out = 0 \<and> (1 - confidence out) * 10 = 10 \<and>
       burstinessScore out \<noteq> (1 - confidence out) * 10)) \<and>
   (isl (fst (failing_engine long_text 0)) \<and>
    (\<exists>out w'. safeDetectAI failing_engine long_text 0 = (Inr out, w') \<and>
       burstinessScore out = 0 \<and> confidence out = 0 \<and> (1 - confidence out) * 10 = 10 \<and>
       burstinessScore out \<noteq> (1 - confidence out) * 10))"
proof -
  have s: "length (trim short_text) < 50" by (simp add: length_trim_short_text)
  have f: "isl (fst (failing_engine long_text 0))" by (simp add: failing_engine_def)
  have 1: "\<exists>out w'. safeDetectAI counting_engine short_text 0 = (Inr out, w') \<and>
       burstinessScore out = 0 \<and> confidence out = 0 \<and> (1 - confidence out) * 10 = 10 \<and>
       burstinessScore out \<noteq> (1 - confidence out) * 10"
    using s degenerate_burstiness [of counting_engine short_text 0] by blast
  have 2: "\<exists>out w'. safeDetectAI failing_engine long_text 0 = (Inr out, w') \<and>
       burstinessScore out = 0 \<and> confidence out = 0 \<and> (1 - confidence out) * 10 = 10 \<and>
       burstinessScore out \<noteq> (1 - confidence out) * 10"
    using f degenerate_burstiness [of failing_engine long_text 0] by blast
  show ?thesis using s f 1 2 by blast
qed

subsection \<open>Determinism\<close>

text \<open>
  C6: the wrapper has no state and no randomness of its own: its result is a function of
  the text and of the outcome of the library call. With the stateless engine of the
  specification two calls on the same text give the same result in any two worlds, the
  world is left as it was, and a second call after the first returns what the first did.
\<close>

theorem safeDetectAI_deterministic:
  "(fst (det text w1) = fst (det text w2) \<longrightarrow>
      fst (safeDetectAI det text w1) = fst (safeDetectAI det text w2)) \<and>
   fst (safeDetectAI (stateless_engine f) text w1) =
     fst (safeDetectAI (stateless_engine f) text w2) \<and>
   safeDetectAI (stateless_engine f) text (snd (safeDetectAI (stateless_engine f) text w1)) =
     safeDetectAI (stateless_engine f) text w1"
proof -
  have "fst (stateless_engine f text w1) = fst (stateless_engine f text w2)"
    by (simp add: stateless_engine_def)
  then have "fst (safeDetectAI (stateless_engine f) text w1) =
             fst (safeDetectAI (stateless_engine f) text w2)"
    by (rule result_from_outcome)
  moreover have "safeDetectAI (stateless_engine f) text
        (snd (safeDetectAI (stateless_engine f) text w1)) =
      safeDetectAI (stateless_engine f) text w1"
    by (simp only: stateless_world)
  moreover have "fst (det text w1) = fst (det text w2) \<longrightarrow>
      fst (safeDetectAI det text w1) = fst (safeDetectAI det text w2)"
    by (blast intro: result_from_outcome)
  ultimately show ?thesis by blast
qed

theorem safeDetectAI_deterministic_witness:
  "fst (counting_engine long_text 0) = fst (counting_engine long_text 5) \<and>
   fst (safeDetectAI counting_engine long_text 0) =
     fst (safeDetectAI counting_engine long_text 5) \<and>
   fst (safeDetectAI (stateless_engine sample_analysis) long_text (0::nat)) =
     fst (safeDetectAI (stateless_engine sample_analysis) long_text (5::nat)) \<and>
   safeDetectAI (stateless_engine sample_analysis) long_text
       (snd (safeDetectAI (stateless_engine sample_analysis) long_text (0::nat))) =
     safeDetectAI (stateless_engine sample_analysis) long_text 0"
proof -
  have h: "fst (counting_engine long_text 0) = fst (counting_engine long_text 5)"
    by (simp add: counting_engine_def)
  show ?thesis
    using h safeDetectAI_deterministic [of counting_engine long_text 0 5 sample_analysis]
    by blast
qed

end
